theory Spec2Isabelle
  imports Complex_Main "HOL-Library.Log_Nat"
begin

section \<open>Data model of the strategy / risk / ledger cycle (src/src/Dashboard.jsx)\<close>

text \<open>
  JavaScript numbers that hold cents, contract counts and sizes are modelled as \<open>int\<close>
  (exact in a double up to \<open>2^53\<close>). The fair-value estimate, confidence and edge of the
  strategies are modelled as exact \<open>real\<close>s. The fee is the one place where the rounding
  of IEEE doubles decides a result in cents (\<open>Math.ceil\<close> of a product), so its
  arithmetic is modelled with the binary64 rounding written out. Wall-clock strings
  (\<open>entryTime\<close>, \<open>time\<close>) and the human-readable \<open>reason\<close> text of a signal are not
  modelled; the activity log is not modelled either.
\<close>

record market =
  ticker :: string
  title :: string
  yesBid :: int
  yesAsk :: int
  noBid :: int
  noAsk :: int
  mid :: int
  spread :: int
  volume :: int

datatype side = YES | NO

datatype status = APPROVED | REJECTED

record signal =
  s_ticker :: string
  s_title :: string
  side :: side
  action :: string
  price :: int
  count :: int
  confidence :: real
  edge :: real

text \<open>A checked signal is \<open>{ ...sig, status, rejectReason }\<close>.\<close>

record checked_signal = signal +
  status :: status
  rejectReason :: "string option"

record position =
  p_side :: side
  p_count :: int
  avgPrice :: int
  p_ticker :: string

record closed_trade =
  t_ticker :: string
  t_side :: side
  entryPrice :: int
  exitPrice :: int
  t_count :: int
  pnl :: int

text \<open>
  \<open>positions\<close> is a JavaScript object with string keys; property order is insertion
  order, so it is an association list with distinct keys, new keys appended at the end.
\<close>

record portfolio =
  balance :: int
  totalPnl :: int
  positions :: "(string \<times> position) list"
  closedTrades :: "closed_trade list"
  equityCurve :: "int list"
  totalFees :: int

record value_params =
  threshold :: int
  maxContracts :: int
  minConfidence :: real

record mm_params =
  mm_spread :: int
  mm_size :: int

record risk_params =
  maxPositionPerMarket :: int
  maxExposure :: int
  maxDailyLoss :: int

section \<open>Strategy evaluation\<close>

text \<open>
  \<open>valueSignals\<close> is the body of \<open>evaluateValueStrategy\<close> after the draw of \<open>fair\<close>;
  \<open>evaluateValueStrategy\<close> takes the result \<open>r\<close> of \<open>Math.random()\<close> as an argument.
\<close>

definition valueSignals :: "market \<Rightarrow> value_params \<Rightarrow> real \<Rightarrow> signal list" where
  "valueSignals m params fair =
     (let yesPart =
            (if fair - of_int (yesAsk m) \<ge> of_int (threshold params) then
               (let conf = min ((fair - of_int (yesAsk m)) / 100) 1 in
                if conf \<ge> minConfidence params then
                  [\<lparr>s_ticker = ticker m, s_title = title m, side = YES, action = ''BUY'',
                    price = yesAsk m + 1, count = min (maxContracts params) 3,
                    confidence = conf, edge = fair - of_int (yesAsk m)\<rparr>]
                else [])
             else []);
          noFair = 100 - fair;
          noAsk' = 100 - yesBid m;
          noPart =
            (if noFair - of_int noAsk' \<ge> of_int (threshold params) then
               (let conf = min ((noFair - of_int noAsk') / 100) 1 in
                if conf \<ge> minConfidence params then
                  [\<lparr>s_ticker = ticker m, s_title = title m, side = NO, action = ''BUY'',
                    price = noAsk' + 1, count = min (maxContracts params) 3,
                    confidence = conf, edge = noFair - of_int noAsk'\<rparr>]
                else [])
             else [])
      in yesPart @ noPart)"

definition evaluateValueStrategy :: "market \<Rightarrow> value_params \<Rightarrow> real \<Rightarrow> signal list" where
  "evaluateValueStrategy m params r =
     valueSignals m params (of_int (mid m) + (r - 1 / 2) * 15)"

definition evaluateMMStrategy :: "market \<Rightarrow> mm_params \<Rightarrow> signal list" where
  "evaluateMMStrategy m params =
     (let half = \<lfloor>of_int (mm_spread params) / (2 :: real)\<rfloor> in
      [\<lparr>s_ticker = ticker m, s_title = title m, side = YES, action = ''BUY'',
        price = max 1 (mid m - half), count = mm_size params,
        confidence = 1 / 2, edge = of_int half\<rparr>,
       \<lparr>s_ticker = ticker m, s_title = title m, side = NO, action = ''BUY'',
        price = max 1 (100 - mid m - half), count = mm_size params,
        confidence = 1 / 2, edge = of_int half\<rparr>])"

text \<open>
  The signals of one cycle: for every market in order, the value signals (modes
  \<open>value\<close> and \<open>both\<close>) followed by the market-maker signals (modes \<open>mm\<close> and
  \<open>both\<close>). \<open>draw i\<close> is the result of \<open>Math.random()\<close> for the market at index \<open>i\<close>.
\<close>

definition marketSignals ::
  "string \<Rightarrow> value_params \<Rightarrow> mm_params \<Rightarrow> real \<Rightarrow> market \<Rightarrow> signal list" where
  "marketSignals activeStrategy valueParams mmParams r m =
     (if activeStrategy = ''value'' \<or> activeStrategy = ''both''
      then evaluateValueStrategy m valueParams r else []) @
     (if activeStrategy = ''mm'' \<or> activeStrategy = ''both''
      then evaluateMMStrategy m mmParams else [])"

definition newSignals ::
  "string \<Rightarrow> value_params \<Rightarrow> mm_params \<Rightarrow> (nat \<Rightarrow> real) \<Rightarrow> market list \<Rightarrow> signal list" where
  "newSignals activeStrategy valueParams mmParams draw markets =
     concat (map (\<lambda>(i, m). marketSignals activeStrategy valueParams mmParams (draw i) m)
                 (enumerate 0 markets))"

section \<open>Risk filter\<close>

definition posKey :: "string \<Rightarrow> side \<Rightarrow> string" where
  "posKey t sd = t @ ''-'' @ (case sd of YES \<Rightarrow> ''YES'' | NO \<Rightarrow> ''NO'')"

definition dailyLoss :: "portfolio \<Rightarrow> int" where
  "dailyLoss p = (if totalPnl p < 0 then \<bar>totalPnl p\<bar> else 0)"

definition verdict :: "signal \<Rightarrow> status \<Rightarrow> string option \<Rightarrow> checked_signal" where
  "verdict sig st r = signal.extend sig (checked_signal.fields st r)"

definition checkSignal ::
  "string \<Rightarrow> value_params \<Rightarrow> risk_params \<Rightarrow> portfolio \<Rightarrow> signal \<Rightarrow> checked_signal" where
  "checkSignal activeStrategy valueParams riskParams currentPortfolio sig =
     (let cost = price sig * count sig in
      if cost > maxExposure riskParams then
        verdict sig REJECTED (Some ''Exposure limit'')
      else if confidence sig < minConfidence valueParams \<and> activeStrategy \<noteq> ''mm'' then
        verdict sig REJECTED (Some ''Low confidence'')
      else
        (let existingPos = map_of (positions currentPortfolio) (posKey (s_ticker sig) (side sig)) in
         if (case existingPos of None \<Rightarrow> False
             | Some pos \<Rightarrow> p_count pos \<ge> maxPositionPerMarket riskParams) then
           verdict sig REJECTED (Some ''Position limit'')
         else if dailyLoss currentPortfolio \<ge> maxDailyLoss riskParams then
           verdict sig REJECTED (Some ''Daily loss limit'')
         else verdict sig APPROVED None))"

definition checkedSignals ::
  "string \<Rightarrow> value_params \<Rightarrow> risk_params \<Rightarrow> portfolio \<Rightarrow> signal list \<Rightarrow> checked_signal list" where
  "checkedSignals activeStrategy valueParams riskParams currentPortfolio sigs =
     map (checkSignal activeStrategy valueParams riskParams currentPortfolio) sigs"

section \<open>Portfolio ledger\<close>

text \<open>\<open>sliceLast n xs\<close> is \<open>xs.slice(-n)\<close> for a positive \<open>n\<close>: the last \<open>n\<close> elements.\<close>

definition sliceLast :: "nat \<Rightarrow> 'a list \<Rightarrow> 'a list" where
  "sliceLast n xs = drop (length xs - n) xs"

subsection \<open>Double-precision arithmetic\<close>

text \<open>
  \<open>toDouble x\<close> is the binary64 number nearest to \<open>x\<close>, ties to the even significand:
  with \<open>2^e \<le> |x| < 2^(e+1)\<close> the result is the multiple of \<open>2^(e-52)\<close> nearest to \<open>x\<close>.
  The exponent range is not bounded (no overflow to infinity, no subnormal numbers), which
  does not matter for the magnitudes of a fee. Every JavaScript operation on numbers
  returns \<open>toDouble\<close> of the exact result.
\<close>

definition pow2 :: "int \<Rightarrow> real" where
  "pow2 e = (if e \<ge> 0 then 2 ^ nat e else 1 / 2 ^ nat (- e))"

text \<open>For \<open>x > 0\<close>, \<open>binExp x\<close> is the \<open>e\<close> with \<open>2^e \<le> x < 2^(e+1)\<close> (lemma \<open>binExp_bounds\<close>).\<close>

definition binExp :: "real \<Rightarrow> int" where
  "binExp x = (if x \<ge> 1 then int (floorlog 2 (nat \<lfloor>x\<rfloor>)) - 1
               else - int (floorlog 2 (nat (\<lceil>1 / x\<rceil> - 1))))"

definition roundHalfEven :: "real \<Rightarrow> int" where
  "roundHalfEven x =
     (let f = \<lfloor>x\<rfloor>; d = x - of_int f
      in if d < 1 / 2 then f else if d > 1 / 2 then f + 1 else if even f then f else f + 1)"

definition toDouble :: "real \<Rightarrow> real" where
  "toDouble x =
     (if x = 0 then 0
      else (let u = pow2 (binExp \<bar>x\<bar> - 52)
            in sgn x * of_int (roundHalfEven (\<bar>x\<bar> / u)) * u))"

subsection \<open>The ledger step\<close>

text \<open>
  \<open>Math.ceil(0.07 * sig.count * (sig.price / 100) * (1 - sig.price / 100) * 100)\<close>: the
  literal \<open>0.07\<close> is a double, the products associate to the left, and every operation
  rounds.
\<close>

definition fee :: "'a signal_scheme \<Rightarrow> int" where
  "fee sig =
     (let a = toDouble (toDouble (7 / 100) * of_int (count sig));
          q = toDouble (of_int (price sig) / 100);
          b = toDouble (a * q);
          u = toDouble (1 - q);
          d = toDouble (b * u);
          r = toDouble (d * 100)
      in \<lceil>r\<rceil>)"

text \<open>\<open>currentMarkets.find((m) => m.ticker === sig.ticker)?.mid || sig.price\<close>:
  the fallback is taken when no market has the ticker and when the \<open>mid\<close> found is 0.\<close>

definition midOrPrice :: "market list \<Rightarrow> 'a signal_scheme \<Rightarrow> int" where
  "midOrPrice currentMarkets sig =
     (case find (\<lambda>m. ticker m = s_ticker sig) currentMarkets of
        None \<Rightarrow> price sig
      | Some m \<Rightarrow> if mid m = 0 then price sig else mid m)"

definition exitPriceOf :: "market list \<Rightarrow> 'a signal_scheme \<Rightarrow> int" where
  "exitPriceOf currentMarkets sig =
     (if side sig = YES then midOrPrice currentMarkets sig
      else 100 - midOrPrice currentMarkets sig)"

text \<open>
  The body of \<open>approved.forEach\<close>: \<open>prev\<close> is the portfolio at the start of the cycle,
  \<open>next\<close> the copy being updated. The closing branch rebuilds \<open>closedTrades\<close> from
  \<open>prev.closedTrades\<close>, as the source does.
\<close>

definition applySignal ::
  "market list \<Rightarrow> portfolio \<Rightarrow> portfolio \<Rightarrow> 'a signal_scheme \<Rightarrow> portfolio" where
  "applySignal currentMarkets prev next sig =
     (let f = fee sig;
          next1 = next\<lparr>totalFees := totalFees next + f, balance := balance next - f\<rparr>;
          key = posKey (s_ticker sig) (side sig)
      in case map_of (positions next1) key of
           Some existing \<Rightarrow>
             (let exitP = exitPriceOf currentMarkets sig;
                  pnl' = (exitP - avgPrice existing) * p_count existing
              in next1\<lparr>totalPnl := totalPnl next1 + pnl',
                       balance := balance next1 + pnl',
                       closedTrades := sliceLast 50 (closedTrades prev) @
                         [\<lparr>t_ticker = s_ticker sig, t_side = side sig,
                           entryPrice = avgPrice existing, exitPrice = exitP,
                           t_count = p_count existing, pnl = pnl'\<rparr>],
                       positions := filter (\<lambda>(k, _). k \<noteq> key) (positions next1)\<rparr>)
         | None \<Rightarrow>
             next1\<lparr>balance := balance next1 - price sig * count sig,
                   positions := positions next1 @
                     [(key, \<lparr>p_side = side sig, p_count = count sig,
                             avgPrice = price sig, p_ticker = s_ticker sig\<rparr>)]\<rparr>)"

definition unrealizedOf :: "market list \<Rightarrow> position \<Rightarrow> int" where
  "unrealizedOf currentMarkets pos =
     (case find (\<lambda>m. ticker m = p_ticker pos) currentMarkets of
        None \<Rightarrow> 0
      | Some mkt \<Rightarrow>
          (let cp = (if p_side pos = YES then mid mkt else 100 - mid mkt)
           in (cp - avgPrice pos) * p_count pos))"

definition unrealized :: "market list \<Rightarrow> (string \<times> position) list \<Rightarrow> int" where
  "unrealized currentMarkets ps =
     foldl (\<lambda>acc (k, pos). acc + unrealizedOf currentMarkets pos) 0 ps"

text \<open>The updater passed to \<open>setPortfolio\<close>.\<close>

definition updatePortfolio ::
  "market list \<Rightarrow> checked_signal list \<Rightarrow> portfolio \<Rightarrow> portfolio" where
  "updatePortfolio currentMarkets checked prev =
     (let approved = filter (\<lambda>s. status s = APPROVED) checked;
          next = foldl (applySignal currentMarkets prev) prev approved
      in next\<lparr>equityCurve := sliceLast 100 (equityCurve prev) @
                 [totalPnl next + unrealized currentMarkets (positions next)]\<rparr>)"

section \<open>Cycle, construction and reset\<close>

record config =
  activeStrategy :: string
  valueParams :: value_params
  mmParams :: mm_params
  riskParams :: risk_params

record engine =
  e_portfolio :: portfolio
  signals :: "checked_signal list"
  cycleCount :: nat
  totalSignals :: nat
  ordersPlaced :: nat
  ordersRejected :: nat

definition initialPortfolio :: portfolio where
  "initialPortfolio =
     \<lparr>balance = 10000, totalPnl = 0, positions = [], closedTrades = [],
      equityCurve = [0], totalFees = 0\<rparr>"

definition initialEngine :: engine where
  "initialEngine =
     \<lparr>e_portfolio = initialPortfolio, signals = [], cycleCount = 0, totalSignals = 0,
      ordersPlaced = 0, ordersRejected = 0\<rparr>"

definition resetStats :: "engine \<Rightarrow> engine" where
  "resetStats st =
     st\<lparr>cycleCount := 0, totalSignals := 0, ordersPlaced := 0, ordersRejected := 0,
        signals := [],
        e_portfolio := \<lparr>balance = 10000, totalPnl = 0, positions = [], closedTrades = [],
                        equityCurve = [0], totalFees = 0\<rparr>\<rparr>"

text \<open>
  One tick of the interval, given the market snapshot and the random draws. The risk
  filter reads the portfolio of the state the tick starts from.
\<close>

definition cycle :: "config \<Rightarrow> (nat \<Rightarrow> real) \<Rightarrow> market list \<Rightarrow> engine \<Rightarrow> engine" where
  "cycle cfg draw currentMarkets st =
     (let sigs = newSignals (activeStrategy cfg) (valueParams cfg) (mmParams cfg) draw
                   currentMarkets;
          checked = checkedSignals (activeStrategy cfg) (valueParams cfg) (riskParams cfg)
                      (e_portfolio st) sigs;
          placed = length (filter (\<lambda>s. status s = APPROVED) checked);
          rejected = length (filter (\<lambda>s. status s = REJECTED) checked)
      in st\<lparr>e_portfolio := updatePortfolio currentMarkets checked (e_portfolio st),
            signals := checked,
            cycleCount := cycleCount st + 1,
            totalSignals := totalSignals st + length checked,
            ordersPlaced := ordersPlaced st + placed,
            ordersRejected := ordersRejected st + rejected\<rparr>)"

inductive reachable :: "engine \<Rightarrow> bool" where
  reachable_init: "reachable initialEngine"
| reachable_cycle: "reachable st \<Longrightarrow> reachable (cycle cfg draw currentMarkets st)"
| reachable_reset: "reachable st \<Longrightarrow> reachable (resetStats st)"

section \<open>The risk-filter contract as the specification words it\<close>

text \<open>
  The four checks in the order the specification lists them, each paired with its reject
  reason; \<open>firstFailure\<close> picks the reason of the first check that fails. These two
  definitions follow the specification and are compared with \<open>checkSignal\<close> below.
\<close>

definition specRiskChecks ::
  "string \<Rightarrow> value_params \<Rightarrow> risk_params \<Rightarrow> portfolio \<Rightarrow> 'a signal_scheme
     \<Rightarrow> (bool \<times> string) list" where
  "specRiskChecks strategy vp rp p sig =
     [(price sig * count sig > maxExposure rp, ''Exposure limit''),
      (confidence sig < minConfidence vp \<and> strategy \<noteq> ''mm'', ''Low confidence''),
      (case map_of (positions p) (posKey (s_ticker sig) (side sig)) of
         None \<Rightarrow> False | Some pos \<Rightarrow> p_count pos \<ge> maxPositionPerMarket rp,
       ''Position limit''),
      (max 0 (- totalPnl p) \<ge> maxDailyLoss rp, ''Daily loss limit'')]"

definition firstFailure :: "(bool \<times> string) list \<Rightarrow> string option" where
  "firstFailure checks = map_option snd (find fst checks)"

section \<open>The fee as the specification words it\<close>

text \<open>
  The specification's formula \<open>ceil(0.07 * count * (price/100) * (1 - price/100) * 100)\<close>
  read as arithmetic on exact numbers; compared with \<open>fee\<close> below.
\<close>

definition specFee :: "'a signal_scheme \<Rightarrow> int" where
  "specFee sig =
     \<lceil>(7 / 100) * of_int (count sig) * (of_int (price sig) / 100)
        * (1 - of_int (price sig) / 100) * (100 :: real)\<rceil>"

section \<open>Concrete inputs\<close>

text \<open>The defaults of the component's \<open>useState\<close> calls.\<close>

definition defaultValueParams :: value_params where
  "defaultValueParams = \<lparr>threshold = 8, maxContracts = 5, minConfidence = 3 / 10\<rparr>"

definition defaultMmParams :: mm_params where
  "defaultMmParams = \<lparr>mm_spread = 6, mm_size = 2\<rparr>"

definition defaultRiskParams :: risk_params where
  "defaultRiskParams = \<lparr>maxPositionPerMarket = 10, maxExposure = 5000, maxDailyLoss = 1000\<rparr>"

definition mmConfig :: config where
  "mmConfig = \<lparr>activeStrategy = ''mm'', valueParams = defaultValueParams,
               mmParams = defaultMmParams, riskParams = defaultRiskParams\<rparr>"

text \<open>Mode \<open>both\<close> with the confidence slider at 60 percent.\<close>

definition strictBothConfig :: config where
  "strictBothConfig =
     \<lparr>activeStrategy = ''both'',
      valueParams = \<lparr>threshold = 8, maxContracts = 5, minConfidence = 6 / 10\<rparr>,
      mmParams = defaultMmParams, riskParams = defaultRiskParams\<rparr>"

text \<open>The value sliders at their minima: threshold 1 cent, confidence 0.\<close>

definition looseValueParams :: value_params where
  "looseValueParams = \<lparr>threshold = 1, maxContracts = 5, minConfidence = 0\<rparr>"

text \<open>The exposure slider at its minimum of 500 cents.\<close>

definition tightRiskParams :: risk_params where
  "tightRiskParams = \<lparr>maxPositionPerMarket = 10, maxExposure = 500, maxDailyLoss = 1000\<rparr>"

definition halfDraw :: "nat \<Rightarrow> real" where
  "halfDraw i = 1 / 2"

definition marketT1 :: market where
  "marketT1 = \<lparr>ticker = ''T1'', title = ''T1'', yesBid = 40, yesAsk = 50, noBid = 50,
               noAsk = 60, mid = 45, spread = 10, volume = 0\<rparr>"

definition firstYes :: signal where
  "firstYes = \<lparr>s_ticker = ''T1'', s_title = ''T1'', side = YES, action = ''BUY'',
               price = 40, count = 3, confidence = 1 / 2, edge = 3\<rparr>"





definition riskySignal :: signal where
  "riskySignal = \<lparr>s_ticker = ''T1'', s_title = ''T1'', side = YES, action = ''BUY'',
                  price = 60, count = 100, confidence = 1 / 10, edge = 10\<rparr>"

definition wideBid :: signal where
  "wideBid = \<lparr>s_ticker = ''T1'', s_title = ''T1'', side = YES, action = ''BUY'',
              price = 92, count = 10, confidence = 1 / 2, edge = 3\<rparr>"

definition lossPortfolio :: portfolio where
  "lossPortfolio = initialPortfolio\<lparr>totalPnl := - 1000\<rparr>"

definition looseNo :: signal where
  "looseNo = \<lparr>s_ticker = ''T1'', s_title = ''T1'', side = NO, action = ''BUY'',
              price = 61, count = 3, confidence = 1 / 40, edge = 5 / 2\<rparr>"

definition mmYesT1 :: signal where
  "mmYesT1 = \<lparr>s_ticker = ''T1'', s_title = ''T1'', side = YES, action = ''BUY'',
              price = 42, count = 2, confidence = 1 / 2, edge = 3\<rparr>"

definition mmNoT1 :: signal where
  "mmNoT1 = \<lparr>s_ticker = ''T1'', s_title = ''T1'', side = NO, action = ''BUY'',
             price = 52, count = 2, confidence = 1 / 2, edge = 3\<rparr>"

text \<open>The portfolio after one market-maker cycle on \<open>marketT1\<close>: both sides are open.\<close>

definition openedT1 :: portfolio where
  "openedT1 = e_portfolio (cycle mmConfig halfDraw [marketT1] initialEngine)"

text \<open>Market-maker mode with the quote-size slider at 4, on a market with mid 53.\<close>

definition quadConfig :: config where
  "quadConfig = \<lparr>activeStrategy = ''mm'', valueParams = defaultValueParams,
                 mmParams = \<lparr>mm_spread = 6, mm_size = 4\<rparr>, riskParams = defaultRiskParams\<rparr>"

definition market53 :: market where
  "market53 = \<lparr>ticker = ''T1'', title = ''T1'', yesBid = 50, yesAsk = 56, noBid = 44,
               noAsk = 50, mid = 53, spread = 6, volume = 0\<rparr>"

definition quadYes :: signal where
  "quadYes = \<lparr>s_ticker = ''T1'', s_title = ''T1'', side = YES, action = ''BUY'',
              price = 50, count = 4, confidence = 1 / 2, edge = 3\<rparr>"

definition quadNo :: signal where
  "quadNo = \<lparr>s_ticker = ''T1'', s_title = ''T1'', side = NO, action = ''BUY'',
             price = 44, count = 4, confidence = 1 / 2, edge = 3\<rparr>"

text \<open>Two market-maker cycles on \<open>marketT1\<close>: the first opens both sides, the second
  closes them.\<close>

definition roundTrip :: "engine \<Rightarrow> engine" where
  "roundTrip st = cycle mmConfig halfDraw [marketT1] (cycle mmConfig halfDraw [marketT1] st)"

section \<open>Auxiliary facts\<close>

lemma verdict_sel [simp]:
  "status (verdict sig st r) = st" "rejectReason (verdict sig st r) = r"
  "price (verdict sig st r) = price sig" "count (verdict sig st r) = count sig"
  "side (verdict sig st r) = side sig" "s_ticker (verdict sig st r) = s_ticker sig"
  "confidence (verdict sig st r) = confidence sig"
  "signal.truncate (verdict sig st r) = sig"
  by (simp_all add: verdict_def signal.extend_def checked_signal.fields_def signal.truncate_def)

text \<open>\<open>binExp\<close> is the binary exponent.\<close>

lemma binExp_bounds:
  assumes "0 < x"
  shows "pow2 (binExp x) \<le> x \<and> x < pow2 (binExp x + 1)"
proof (cases "1 \<le> x")
  case True
  define n where "n = nat \<lfloor>x\<rfloor>"
  have n0: "0 < n" using True by (simp add: n_def)
  have nn: "real n = of_int \<lfloor>x\<rfloor>" using True by (simp add: n_def)
  have n1: "real n \<le> x" using nn by linarith
  have n2: "x < real n + 1" using nn by linarith
  from floorlog_bounds [of n 2] n0
  have b: "2 ^ (floorlog 2 n - 1) \<le> n" "n < 2 ^ floorlog 2 n" by auto
  have k: "0 < floorlog 2 n"
    using n0 by (simp add: floorlog_def)
  have e: "binExp x = int (floorlog 2 n) - 1" using True by (simp add: binExp_def n_def)
  have lo: "(2::real) ^ (floorlog 2 n - 1) \<le> x"
    using b(1) n1 by (metis of_nat_le_iff of_nat_numeral of_nat_power order_trans)
  have "real n + 1 \<le> 2 ^ floorlog 2 n"
    using b(2) by (metis Suc_leI of_nat_Suc of_nat_le_iff of_nat_numeral of_nat_power add.commute)
  with n2 have hi: "x < (2::real) ^ floorlog 2 n" by linarith
  from k have "nat (int (floorlog 2 n) - 1) = floorlog 2 n - 1"
    by auto
  with lo hi k show ?thesis by (simp add: e pow2_def)
next
  case False
  define m where "m = nat (\<lceil>1 / x\<rceil> - 1)"
  from False assms have gt: "1 < 1 / x" by (simp add: field_simps)
  then have c2: "2 \<le> \<lceil>1 / x\<rceil>" by linarith
  have m0: "0 < m" using c2 by (simp add: m_def)
  have "0 \<le> \<lceil>1 / x\<rceil> - 1" using c2 by linarith
  then have mi: "int m = \<lceil>1 / x\<rceil> - 1" unfolding m_def by (rule nat_0_le)
  have mm: "real m = of_int \<lceil>1 / x\<rceil> - 1"
    using mi by (metis of_int_of_nat_eq of_int_diff of_int_1)
  have m1: "real m < 1 / x" using mm by linarith
  have m2: "1 / x \<le> real m + 1" using mm by linarith
  from floorlog_bounds [of m 2] m0
  have b: "2 ^ (floorlog 2 m - 1) \<le> m" "m < 2 ^ floorlog 2 m" by auto
  have k: "0 < floorlog 2 m"
    using m0 by (simp add: floorlog_def)
  have e: "binExp x = - int (floorlog 2 m)" using False by (simp add: binExp_def m_def)
  have "real m + 1 \<le> 2 ^ floorlog 2 m"
    using b(2) by (metis Suc_leI of_nat_Suc of_nat_le_iff of_nat_numeral of_nat_power add.commute)
  with m2 have "1 / x \<le> 2 ^ floorlog 2 m" by linarith
  with assms have lo: "1 / 2 ^ floorlog 2 m \<le> x"
    by (simp add: field_simps)
  have "(2::real) ^ (floorlog 2 m - 1) \<le> real m"
    using b(1) by (metis of_nat_le_iff of_nat_numeral of_nat_power)
  with m1 have "(2::real) ^ (floorlog 2 m - 1) < 1 / x" by linarith
  with assms have hi: "x < 1 / 2 ^ (floorlog 2 m - 1)"
    by (simp add: field_simps)
  show ?thesis
  proof (cases "floorlog 2 m = 1")
    case True
    with lo hi show ?thesis by (simp add: e pow2_def)
  next
    case F: False
    with k have "nat (int (floorlog 2 m) - 1) = floorlog 2 m - 1" "int (floorlog 2 m) > 1"
      by auto
    with lo hi k show ?thesis by (simp add: e pow2_def)
  qed
qed

text \<open>The double nearest to 0.07 lies above it, and 0.1 + 0.2 is not the double 0.3.\<close>

lemma toDouble_examples:
  "toDouble (7 / 100) = 5044031582654956 / 2 ^ 56"
  "toDouble (toDouble (1 / 10) + toDouble (2 / 10)) = 5404319552844596 / 2 ^ 54"
  "toDouble (3 / 10) = 5404319552844595 / 2 ^ 54"
  by (simp_all add: toDouble_def binExp_def pow2_def roundHalfEven_def Let_def compute_floorlog)

lemmas double_eval =
  fee_def toDouble_def binExp_def pow2_def roundHalfEven_def Let_def compute_floorlog

text \<open>The fees of the signals used below.\<close>

lemma fee_2_42: "count sig = 2 \<Longrightarrow> price sig = 42 \<Longrightarrow> fee sig = 4"
  by (simp add: double_eval)

lemma fee_2_52: "count sig = 2 \<Longrightarrow> price sig = 52 \<Longrightarrow> fee sig = 4"
  by (simp add: double_eval)

lemma fee_3_40: "count sig = 3 \<Longrightarrow> price sig = 40 \<Longrightarrow> fee sig = 6"
  by (simp add: double_eval)

lemma fee_4_50: "count sig = 4 \<Longrightarrow> price sig = 50 \<Longrightarrow> fee sig = 8"
  by (simp add: double_eval)

lemma fee_4_44: "count sig = 4 \<Longrightarrow> price sig = 44 \<Longrightarrow> fee sig = 7"
  by (simp add: double_eval)

lemma fee_8_50: "count sig = 8 \<Longrightarrow> price sig = 50 \<Longrightarrow> fee sig = 15"
  by (simp add: double_eval)

lemmas fee_values = fee_2_42 fee_2_52 fee_3_40 fee_4_50 fee_4_44

lemma map_of_filter_key: "map_of (filter (\<lambda>(k, _). k \<noteq> key) ps) key = None"
  by (induction ps) auto

lemma value_conf: "s \<in> set (valueSignals m vp fair) \<Longrightarrow> confidence s \<ge> minConfidence vp"
  by (auto simp add: valueSignals_def Let_def split: if_splits)

lemma in_newSignals:
  "s \<in> set (newSignals a vp mp draw ms) \<Longrightarrow>
     \<exists>m \<in> set ms. \<exists>r. s \<in> set (marketSignals a vp mp r m)"
  by (auto simp add: newSignals_def in_set_enumerate_eq)

lemma cycle_portfolio:
  "e_portfolio (cycle cfg draw ms st)
     = updatePortfolio ms
         (checkedSignals (activeStrategy cfg) (valueParams cfg) (riskParams cfg) (e_portfolio st)
            (newSignals (activeStrategy cfg) (valueParams cfg) (mmParams cfg) draw ms))
         (e_portfolio st)"
  by (simp add: cycle_def Let_def)

text \<open>When no market of the snapshot has the signal's ticker, the exit price is the signal's
  price on the YES side and its complement to 100 on the NO side.\<close>

lemma exitPriceOf_absent:
  "find (\<lambda>m. ticker m = s_ticker sig) ms = None \<Longrightarrow>
     exitPriceOf ms sig = (if side sig = YES then price sig else 100 - price sig)"
  by (simp add: exitPriceOf_def midOrPrice_def)

subsection \<open>Lengths of the two retained lists\<close>

lemma equityCurve_cycle_length:
  "length (equityCurve (e_portfolio (cycle cfg draw ms st)))
     = min (length (equityCurve (e_portfolio st))) 100 + 1"
  by (simp add: cycle_def updatePortfolio_def sliceLast_def Let_def)

lemma equityCurve_iter_length:
  "n \<le> 100 \<Longrightarrow>
     length (equityCurve (e_portfolio ((cycle cfg draw ms ^^ n) initialEngine))) = n + 1"
  by (induction n) (simp_all add: equityCurve_cycle_length initialEngine_def initialPortfolio_def)

lemma reachable_iter: "reachable st \<Longrightarrow> reachable ((cycle cfg draw ms ^^ n) st)"
  by (induction n) (simp_all add: reachable_cycle)

lemma closedTrades_applySignal:
  "closedTrades (applySignal ms prev nxt sig) = closedTrades nxt
   \<or> length (closedTrades (applySignal ms prev nxt sig)) \<le> 51"
  by (auto simp add: applySignal_def sliceLast_def Let_def split: option.splits)

lemma closedTrades_foldl:
  "closedTrades (foldl (applySignal ms prev) nxt sigs) = closedTrades nxt
   \<or> length (closedTrades (foldl (applySignal ms prev) nxt sigs)) \<le> 51"
proof (induction sigs arbitrary: nxt)
  case Nil
  show ?case by simp
next
  case (Cons s sigs)
  from Cons.IH [of "applySignal ms prev nxt s"] closedTrades_applySignal [of ms prev nxt s]
  show ?case by auto
qed

lemma closedTrades_cycle:
  "closedTrades (e_portfolio (cycle cfg draw ms st)) = closedTrades (e_portfolio st)
   \<or> length (closedTrades (e_portfolio (cycle cfg draw ms st))) \<le> 51"
  using closedTrades_foldl [of ms "e_portfolio st" "e_portfolio st"]
  by (simp add: cycle_def updatePortfolio_def Let_def)

text \<open>What the code does keep: at most 101 equity samples and at most 51 closed trades.\<close>

lemma reachable_bounds:
  "reachable st \<Longrightarrow>
     1 \<le> length (equityCurve (e_portfolio st)) \<and> length (equityCurve (e_portfolio st)) \<le> 101
     \<and> length (closedTrades (e_portfolio st)) \<le> 51"
proof (induction rule: reachable.induct)
  case reachable_init
  show ?case by (simp add: initialEngine_def initialPortfolio_def)
next
  case (reachable_cycle st cfg draw ms)
  with closedTrades_cycle [of cfg draw ms st] show ?case
    by (auto simp add: equityCurve_cycle_length)
next
  case (reachable_reset st)
  show ?case by (simp add: resetStats_def)
qed

subsection \<open>Evaluated cycles\<close>

lemma mm_open:
  assumes "positions p = []" "0 \<le> totalPnl p"
  shows "updatePortfolio [marketT1]
           (checkedSignals ''mm'' defaultValueParams defaultRiskParams p
              (newSignals ''mm'' defaultValueParams defaultMmParams halfDraw [marketT1])) p
         = p\<lparr>balance := balance p - 196, totalFees := totalFees p + 8,
              positions := [(''T1-YES'', \<lparr>p_side = YES, p_count = 2, avgPrice = 42, p_ticker = ''T1''\<rparr>),
                     (''T1-NO'', \<lparr>p_side = NO, p_count = 2, avgPrice = 52, p_ticker = ''T1''\<rparr>)],
              equityCurve := sliceLast 100 (equityCurve p) @ [totalPnl p + 12]\<rparr>"
  using assms
  by (simp add: updatePortfolio_def newSignals_def marketSignals_def
        checkedSignals_def checkSignal_def evaluateMMStrategy_def applySignal_def fee_values
        unrealized_def unrealizedOf_def posKey_def dailyLoss_def Let_def
        marketT1_def defaultValueParams_def defaultMmParams_def defaultRiskParams_def
        halfDraw_def)

lemma mm_close:
  assumes "positions p = [(''T1-YES'', \<lparr>p_side = YES, p_count = 2, avgPrice = 42, p_ticker = ''T1''\<rparr>),
                     (''T1-NO'', \<lparr>p_side = NO, p_count = 2, avgPrice = 52, p_ticker = ''T1''\<rparr>)]"
     "0 \<le> totalPnl p"
  shows "updatePortfolio [marketT1]
           (checkedSignals ''mm'' defaultValueParams defaultRiskParams p
              (newSignals ''mm'' defaultValueParams defaultMmParams halfDraw [marketT1])) p
         = p\<lparr>balance := balance p + 4, totalFees := totalFees p + 8, totalPnl := totalPnl p + 12,
              positions := [],
              closedTrades := sliceLast 50 (closedTrades p) @
                 [\<lparr>t_ticker = ''T1'', t_side = NO, entryPrice = 52, exitPrice = 55, t_count = 2, pnl = 6\<rparr>],
              equityCurve := sliceLast 100 (equityCurve p) @ [totalPnl p + 12]\<rparr>"
  using assms
  by (simp add: updatePortfolio_def newSignals_def marketSignals_def
        checkedSignals_def checkSignal_def evaluateMMStrategy_def applySignal_def fee_values
        exitPriceOf_def midOrPrice_def
        unrealized_def unrealizedOf_def posKey_def dailyLoss_def Let_def
        marketT1_def defaultValueParams_def defaultMmParams_def defaultRiskParams_def
        halfDraw_def)

lemma roundTrip_portfolio:
  assumes "positions (e_portfolio st) = []" "0 \<le> totalPnl (e_portfolio st)"
  shows "positions (e_portfolio (roundTrip st)) = []
    \<and> 0 \<le> totalPnl (e_portfolio (roundTrip st))
    \<and> length (closedTrades (e_portfolio (roundTrip st)))
        = min (length (closedTrades (e_portfolio st))) 50 + 1"
proof -
  let ?p1 = "e_portfolio (cycle mmConfig halfDraw [marketT1] st)"
  have c: "activeStrategy mmConfig = ''mm''" "valueParams mmConfig = defaultValueParams"
    "mmParams mmConfig = defaultMmParams" "riskParams mmConfig = defaultRiskParams"
    by (simp_all add: mmConfig_def)
  have p1: "?p1 = (e_portfolio st)\<lparr>balance := balance (e_portfolio st) - 196,
              totalFees := totalFees (e_portfolio st) + 8,
              positions := [(''T1-YES'', \<lparr>p_side = YES, p_count = 2, avgPrice = 42, p_ticker = ''T1''\<rparr>),
                     (''T1-NO'', \<lparr>p_side = NO, p_count = 2, avgPrice = 52, p_ticker = ''T1''\<rparr>)],
              equityCurve := sliceLast 100 (equityCurve (e_portfolio st)) @ [totalPnl (e_portfolio st) + 12]\<rparr>"
    unfolding cycle_portfolio c by (rule mm_open [OF assms])
  have h: "positions ?p1 = [(''T1-YES'', \<lparr>p_side = YES, p_count = 2, avgPrice = 42, p_ticker = ''T1''\<rparr>),
                     (''T1-NO'', \<lparr>p_side = NO, p_count = 2, avgPrice = 52, p_ticker = ''T1''\<rparr>)]"
    "0 \<le> totalPnl ?p1" "closedTrades ?p1 = closedTrades (e_portfolio st)"
    using assms by (simp_all add: p1)
  have "e_portfolio (roundTrip st) = updatePortfolio [marketT1]
           (checkedSignals ''mm'' defaultValueParams defaultRiskParams ?p1
              (newSignals ''mm'' defaultValueParams defaultMmParams halfDraw [marketT1])) ?p1"
    unfolding roundTrip_def cycle_portfolio [of mmConfig halfDraw "[marketT1]" "cycle mmConfig halfDraw [marketT1] st"] c ..
  also note mm_close [OF h(1,2)]
  finally show ?thesis using h by (simp add: sliceLast_def)
qed

lemma roundTrip_iter:
  "n \<le> 51 \<Longrightarrow>
     positions (e_portfolio ((roundTrip ^^ n) initialEngine)) = []
     \<and> 0 \<le> totalPnl (e_portfolio ((roundTrip ^^ n) initialEngine))
     \<and> length (closedTrades (e_portfolio ((roundTrip ^^ n) initialEngine))) = n"
proof (induction n)
  case 0
  show ?case by (simp add: initialEngine_def initialPortfolio_def)
next
  case (Suc n)
  then have ih: "positions (e_portfolio ((roundTrip ^^ n) initialEngine)) = []"
     "0 \<le> totalPnl (e_portfolio ((roundTrip ^^ n) initialEngine))"
     "length (closedTrades (e_portfolio ((roundTrip ^^ n) initialEngine))) = n"
    by simp_all
  from roundTrip_portfolio [OF ih(1,2)] ih(3) Suc.prems show ?case by simp
qed

lemma reachable_roundTrip: "reachable st \<Longrightarrow> reachable ((roundTrip ^^ n) st)"
  by (induction n) (simp_all add: roundTrip_def reachable_cycle)


text \<open>The first market-maker cycle on \<open>marketT1\<close> opens both sides.\<close>

lemma mm_cycle_1:
  "e_portfolio (cycle mmConfig halfDraw [marketT1] initialEngine)
     = \<lparr>balance = 9804, totalPnl = 0,
        positions = [(''T1-YES'', \<lparr>p_side = YES, p_count = 2, avgPrice = 42, p_ticker = ''T1''\<rparr>),
                     (''T1-NO'', \<lparr>p_side = NO, p_count = 2, avgPrice = 52, p_ticker = ''T1''\<rparr>)],
        closedTrades = [], equityCurve = [0, 12], totalFees = 8\<rparr>"
  by (simp add: cycle_def updatePortfolio_def newSignals_def marketSignals_def
        checkedSignals_def checkSignal_def evaluateMMStrategy_def applySignal_def fee_values
        unrealized_def unrealizedOf_def sliceLast_def posKey_def dailyLoss_def Let_def
        marketT1_def defaultValueParams_def defaultMmParams_def defaultRiskParams_def
        mmConfig_def halfDraw_def initialEngine_def initialPortfolio_def)



section \<open>Construction and reset\<close>

text \<open>
  C1 (as stated): the portfolio's balance starts at 1,000,000 cents. The constructed
  engine's balance is not 1,000,000.
\<close>

theorem initial_balance_not_million:
  "balance (e_portfolio initialEngine) \<noteq> 1000000"
  by (simp add: initialEngine_def initialPortfolio_def)

text \<open>
  C1 (amended): the portfolio starts with balance 10,000 cents, totalPnl 0, no positions,
  no closed trades, equityCurve = [0] and totalFees 0, and the reset operation puts the
  portfolio back into this same starting state, whatever state it is applied to.
\<close>

theorem initial_and_reset_portfolio:
  "e_portfolio initialEngine
     = \<lparr>balance = 10000, totalPnl = 0, positions = [], closedTrades = [],
        equityCurve = [0], totalFees = 0\<rparr>
   \<and> e_portfolio (resetStats st) = e_portfolio initialEngine"
  by (simp add: initialEngine_def initialPortfolio_def resetStats_def)

section \<open>Bounded histories\<close>

text \<open>
  C2: the claim bounds equityCurve by 100 and closedTrades by 50 with oldest-first
  eviction. Evaluated on the code: after 100 cycles on an empty snapshot the reachable
  portfolio holds 101 equity samples; after 51 open-and-close round trips (102
  market-maker cycles on one market) it holds 51 closed trades; and after two market-maker
  cycles on one market, in the second of which both open positions are closed, the
  reachable portfolio has no position left but records only the trade closed last, the
  trade closed just before it in the same cycle being dropped although the list is far
  below its bound.
\<close>

theorem bounded_lists_overrun:
  "reachable ((cycle mmConfig halfDraw [] ^^ 100) initialEngine)
   \<and> length (equityCurve (e_portfolio ((cycle mmConfig halfDraw [] ^^ 100) initialEngine))) = 101
   \<and> reachable ((roundTrip ^^ 51) initialEngine)
   \<and> length (closedTrades (e_portfolio ((roundTrip ^^ 51) initialEngine))) = 51
   \<and> reachable (cycle mmConfig halfDraw [marketT1] (cycle mmConfig halfDraw [marketT1] initialEngine))
   \<and> positions (e_portfolio
        (cycle mmConfig halfDraw [marketT1] (cycle mmConfig halfDraw [marketT1] initialEngine))) = []
   \<and> closedTrades (e_portfolio
        (cycle mmConfig halfDraw [marketT1] (cycle mmConfig halfDraw [marketT1] initialEngine)))
       = [\<lparr>t_ticker = ''T1'', t_side = NO, entryPrice = 52, exitPrice = 55, t_count = 2, pnl = 6\<rparr>]"
proof -
  have a: "reachable ((cycle mmConfig halfDraw [] ^^ 100) initialEngine)"
    by (rule reachable_iter [OF reachable_init])
  have b: "length (equityCurve (e_portfolio ((cycle mmConfig halfDraw [] ^^ 100) initialEngine))) = 101"
    using equityCurve_iter_length [of 100 mmConfig halfDraw "[]"] by simp
  have c: "reachable (cycle mmConfig halfDraw [marketT1] (cycle mmConfig halfDraw [marketT1] initialEngine))"
    by (intro reachable_cycle reachable_init)
  have d: "e_portfolio (cycle mmConfig halfDraw [marketT1] (cycle mmConfig halfDraw [marketT1] initialEngine))
     = \<lparr>balance = 9808, totalPnl = 12, positions = [],
        closedTrades = [\<lparr>t_ticker = ''T1'', t_side = NO, entryPrice = 52, exitPrice = 55,
                         t_count = 2, pnl = 6\<rparr>],
        equityCurve = [0, 12, 12], totalFees = 16\<rparr>"
  proof -
    have "e_portfolio (cycle mmConfig halfDraw [marketT1] (cycle mmConfig halfDraw [marketT1] initialEngine))
      = updatePortfolio [marketT1]
          (checkedSignals (activeStrategy mmConfig) (valueParams mmConfig) (riskParams mmConfig)
             (e_portfolio (cycle mmConfig halfDraw [marketT1] initialEngine))
             (newSignals (activeStrategy mmConfig) (valueParams mmConfig) (mmParams mmConfig)
                halfDraw [marketT1]))
          (e_portfolio (cycle mmConfig halfDraw [marketT1] initialEngine))"
      by (rule cycle_portfolio)
    also have "\<dots> = \<lparr>balance = 9808, totalPnl = 12, positions = [],
        closedTrades = [\<lparr>t_ticker = ''T1'', t_side = NO, entryPrice = 52, exitPrice = 55,
                         t_count = 2, pnl = 6\<rparr>],
        equityCurve = [0, 12, 12], totalFees = 16\<rparr>"
      unfolding mm_cycle_1
      by (simp add: updatePortfolio_def newSignals_def marketSignals_def checkedSignals_def
          checkSignal_def evaluateMMStrategy_def applySignal_def fee_values exitPriceOf_def
          midOrPrice_def unrealized_def unrealizedOf_def sliceLast_def posKey_def
          dailyLoss_def Let_def marketT1_def defaultValueParams_def defaultMmParams_def
          defaultRiskParams_def mmConfig_def halfDraw_def)
    finally show ?thesis .
  qed
  have e: "reachable ((roundTrip ^^ 51) initialEngine)"
    by (rule reachable_roundTrip [OF reachable_init])
  have f: "length (closedTrades (e_portfolio ((roundTrip ^^ 51) initialEngine))) = 51"
    using roundTrip_iter [of 51] by simp
  from a b c d e f show ?thesis by simp
qed

section \<open>Ledger: closing and opening positions\<close>

text \<open>
  One closing step of the ledger loop, for every state \<open>nxt\<close> the loop has reached and the
  portfolio \<open>prev\<close> the cycle started from: the whole existing count is closed at the exit
  price, the realized pnl is added to totalPnl and credited to the balance after the fee,
  the position is removed and none is opened, and closedTrades becomes the last 50 entries
  of \<open>prev\<close>'s list followed by the new trade.
\<close>

lemma liquidation_step:
  assumes "map_of (positions nxt) (posKey (s_ticker sig) (side sig)) = Some existing"
  shows "totalPnl (applySignal ms prev nxt sig)
           = totalPnl nxt + (exitPriceOf ms sig - avgPrice existing) * p_count existing
   \<and> balance (applySignal ms prev nxt sig)
           = balance nxt - fee sig + (exitPriceOf ms sig - avgPrice existing) * p_count existing
   \<and> closedTrades (applySignal ms prev nxt sig)
           = sliceLast 50 (closedTrades prev) @
             [\<lparr>t_ticker = s_ticker sig, t_side = side sig, entryPrice = avgPrice existing,
               exitPrice = exitPriceOf ms sig, t_count = p_count existing,
               pnl = (exitPriceOf ms sig - avgPrice existing) * p_count existing\<rparr>]
   \<and> positions (applySignal ms prev nxt sig)
           = filter (\<lambda>(k, _). k \<noteq> posKey (s_ticker sig) (side sig)) (positions nxt)
   \<and> map_of (positions (applySignal ms prev nxt sig)) (posKey (s_ticker sig) (side sig)) = None
   \<and> (\<forall>m. find (\<lambda>m. ticker m = s_ticker sig) ms = Some m \<and> mid m \<noteq> 0 \<longrightarrow>
         exitPriceOf ms sig = (if side sig = YES then mid m else 100 - mid m))"
  using assms
  by (auto simp add: applySignal_def Let_def exitPriceOf_def midOrPrice_def map_of_filter_key)

text \<open>Fee and cost or proceeds of one step of the ledger loop.\<close>

lemma ledger_step_accounting:
  "totalFees (applySignal ms prev nxt sig) = totalFees nxt + fee sig
   \<and> (map_of (positions nxt) (posKey (s_ticker sig) (side sig)) = None \<longrightarrow>
        balance (applySignal ms prev nxt sig) = balance nxt - fee sig - price sig * count sig)
   \<and> (\<forall>existing. map_of (positions nxt) (posKey (s_ticker sig) (side sig)) = Some existing \<longrightarrow>
        balance (applySignal ms prev nxt sig)
          = balance nxt - fee sig + (exitPriceOf ms sig - avgPrice existing) * p_count existing)"
  by (auto simp add: applySignal_def Let_def split: option.splits)



text \<open>
  C3: the claim says that an approved signal whose (ticker, side) key has an open position
  liquidates it in full and that a ClosedTrade is appended. Evaluated on the code in the
  second of two market-maker cycles on \<open>marketT1\<close>: both signals of the cycle are approved;
  the YES signal closes the YES position and its trade is recorded; the NO signal then
  finds the open NO position, closes it, and closedTrades is afterwards the NO trade
  alone: the YES trade recorded one step earlier is gone, so the NO trade was not appended
  to the list.
\<close>

theorem second_close_replaces_first:
  "checkedSignals ''mm'' defaultValueParams defaultRiskParams openedT1
       (newSignals ''mm'' defaultValueParams defaultMmParams halfDraw [marketT1])
     = [verdict mmYesT1 APPROVED None, verdict mmNoT1 APPROVED None]
   \<and> closedTrades (applySignal [marketT1] openedT1 openedT1 (verdict mmYesT1 APPROVED None))
     = [\<lparr>t_ticker = ''T1'', t_side = YES, entryPrice = 42, exitPrice = 45, t_count = 2, pnl = 6\<rparr>]
   \<and> map_of (positions (applySignal [marketT1] openedT1 openedT1 (verdict mmYesT1 APPROVED None)))
        (posKey ''T1'' NO)
     = Some \<lparr>p_side = NO, p_count = 2, avgPrice = 52, p_ticker = ''T1''\<rparr>
   \<and> closedTrades
        (applySignal [marketT1] openedT1
           (applySignal [marketT1] openedT1 openedT1 (verdict mmYesT1 APPROVED None))
           (verdict mmNoT1 APPROVED None))
     = [\<lparr>t_ticker = ''T1'', t_side = NO, entryPrice = 52, exitPrice = 55, t_count = 2, pnl = 6\<rparr>]
   \<and> closedTrades (e_portfolio (roundTrip initialEngine))
     = [\<lparr>t_ticker = ''T1'', t_side = NO, entryPrice = 52, exitPrice = 55, t_count = 2, pnl = 6\<rparr>]"
proof -
  have o: "openedT1
     = \<lparr>balance = 9804, totalPnl = 0,
        positions = [(''T1-YES'', \<lparr>p_side = YES, p_count = 2, avgPrice = 42, p_ticker = ''T1''\<rparr>),
                     (''T1-NO'', \<lparr>p_side = NO, p_count = 2, avgPrice = 52, p_ticker = ''T1''\<rparr>)],
        closedTrades = [], equityCurve = [0, 12], totalFees = 8\<rparr>"
    unfolding openedT1_def by (rule mm_cycle_1)
  have checked: "checkedSignals ''mm'' defaultValueParams defaultRiskParams openedT1
       (newSignals ''mm'' defaultValueParams defaultMmParams halfDraw [marketT1])
     = [verdict mmYesT1 APPROVED None, verdict mmNoT1 APPROVED None]"
    unfolding o
    by (simp add: checkedSignals_def checkSignal_def newSignals_def marketSignals_def
          evaluateMMStrategy_def dailyLoss_def posKey_def defaultMmParams_def
          defaultRiskParams_def marketT1_def mmYesT1_def mmNoT1_def Let_def)
  have first: "applySignal [marketT1] openedT1 openedT1 (verdict mmYesT1 APPROVED None)
     = \<lparr>balance = 9806, totalPnl = 6,
        positions = [(''T1-NO'', \<lparr>p_side = NO, p_count = 2, avgPrice = 52, p_ticker = ''T1''\<rparr>)],
        closedTrades = [\<lparr>t_ticker = ''T1'', t_side = YES, entryPrice = 42, exitPrice = 45,
                         t_count = 2, pnl = 6\<rparr>],
        equityCurve = [0, 12], totalFees = 12\<rparr>"
    unfolding o
    by (simp add: applySignal_def fee_values exitPriceOf_def midOrPrice_def sliceLast_def
          posKey_def marketT1_def mmYesT1_def Let_def)
  have second: "closedTrades
        (applySignal [marketT1] openedT1
           (applySignal [marketT1] openedT1 openedT1 (verdict mmYesT1 APPROVED None))
           (verdict mmNoT1 APPROVED None))
     = [\<lparr>t_ticker = ''T1'', t_side = NO, entryPrice = 52, exitPrice = 55, t_count = 2, pnl = 6\<rparr>]"
    unfolding first unfolding o
    by (simp add: applySignal_def exitPriceOf_def midOrPrice_def sliceLast_def
          posKey_def marketT1_def mmNoT1_def Let_def)
  have tick: "closedTrades (e_portfolio (roundTrip initialEngine))
     = [\<lparr>t_ticker = ''T1'', t_side = NO, entryPrice = 52, exitPrice = 55, t_count = 2, pnl = 6\<rparr>]"
  proof -
    have "e_portfolio (roundTrip initialEngine)
      = updatePortfolio [marketT1]
          (checkedSignals ''mm'' defaultValueParams defaultRiskParams openedT1
             (newSignals ''mm'' defaultValueParams defaultMmParams halfDraw [marketT1]))
          openedT1"
      by (simp add: roundTrip_def cycle_portfolio openedT1_def mmConfig_def)
    then show ?thesis
      unfolding checked by (simp add: updatePortfolio_def Let_def second)
  qed
  from checked first second tick show ?thesis by (simp add: posKey_def)
qed




text \<open>
  C8: the claim says the balance update matches the documented formulas exactly, with
  fee = ceil(0.07 * count * (price/100) * (1 - price/100) * 100). Evaluated on the code in
  one market-maker cycle with quote size 4 on a market with mid 53: both bids are approved;
  the YES bid of 4 contracts at 50 cents is charged a fee of 8, where the formula gives
  exactly 7; the cycle accumulates totalFees 15 and leaves the balance at
  10000 - 15 - 376, where the formula gives fees of 14.
\<close>

theorem fee_exceeds_formula_at_exact_cents:
  "signals (cycle quadConfig halfDraw [market53] initialEngine)
     = [verdict quadYes APPROVED None, verdict quadNo APPROVED None]
   \<and> fee quadYes = 8 \<and> specFee quadYes = 7
   \<and> fee quadNo = 7 \<and> specFee quadNo = 7
   \<and> totalFees (e_portfolio (cycle quadConfig halfDraw [market53] initialEngine)) = 15
   \<and> balance (e_portfolio (cycle quadConfig halfDraw [market53] initialEngine))
       = 10000 - 15 - (50 * 4 + 44 * 4)"
proof -
  have sigs: "signals (cycle quadConfig halfDraw [market53] initialEngine)
     = [verdict quadYes APPROVED None, verdict quadNo APPROVED None]"
    by (simp add: cycle_def checkedSignals_def checkSignal_def newSignals_def marketSignals_def
          evaluateMMStrategy_def dailyLoss_def quadConfig_def defaultRiskParams_def
          market53_def halfDraw_def quadYes_def quadNo_def initialEngine_def
          initialPortfolio_def Let_def)
  have fees: "fee quadYes = 8" "fee quadNo = 7"
    by (simp_all add: fee_values quadYes_def quadNo_def)
  have spec: "specFee quadYes = 7" "specFee quadNo = 7"
    by (simp_all add: specFee_def quadYes_def quadNo_def)
  have p: "e_portfolio (cycle quadConfig halfDraw [market53] initialEngine)
     = updatePortfolio [market53] [verdict quadYes APPROVED None, verdict quadNo APPROVED None]
         initialPortfolio"
    using sigs by (simp add: cycle_def Let_def initialEngine_def)
  have "totalFees (e_portfolio (cycle quadConfig halfDraw [market53] initialEngine)) = 15
    \<and> balance (e_portfolio (cycle quadConfig halfDraw [market53] initialEngine))
       = 10000 - 15 - (50 * 4 + 44 * 4)"
    unfolding p
    by (simp add: updatePortfolio_def applySignal_def fee_values posKey_def quadYes_def
          quadNo_def initialPortfolio_def Let_def)
  with sigs fees spec show ?thesis by simp
qed

section \<open>Strategies\<close>

text \<open>
  C7: for every market and market-maker parameters the market-maker strategy emits exactly
  two signals, unconditionally and without any random draw: a YES BUY at
  max(1, mid - floor(spread/2)) and a NO BUY at max(1, 100 - mid - floor(spread/2)), each
  with count = size, confidence 0.5 and edge floor(spread/2). With spread 6, size 2 and
  mid 50 both bids are at 47 with edge 3.
\<close>

theorem mm_emits_two_bids:
  "length (evaluateMMStrategy m params) = 2
   \<and> map side (evaluateMMStrategy m params) = [YES, NO]
   \<and> map action (evaluateMMStrategy m params) = [''BUY'', ''BUY'']
   \<and> map price (evaluateMMStrategy m params)
       = [max 1 (mid m - mm_spread params div 2), max 1 (100 - mid m - mm_spread params div 2)]
   \<and> map count (evaluateMMStrategy m params) = [mm_size params, mm_size params]
   \<and> map confidence (evaluateMMStrategy m params) = [1 / 2, 1 / 2]
   \<and> map edge (evaluateMMStrategy m params)
       = [of_int (mm_spread params div 2), of_int (mm_spread params div 2)]
   \<and> map s_ticker (evaluateMMStrategy m params) = [ticker m, ticker m]
   \<and> map (\<lambda>s. (side s, price s, count s, confidence s, edge s))
        (evaluateMMStrategy (m\<lparr>mid := 50\<rparr>) \<lparr>mm_spread = 6, mm_size = 2\<rparr>)
       = [(YES, 47, 2, 1 / 2, 3), (NO, 47, 2, 1 / 2, 3)]"
  by (simp add: evaluateMMStrategy_def Let_def floor_divide_of_int_eq [where ?'a = real, symmetric])

text \<open>
  C6 (as stated): with yesBid 40, yesAsk 50, mid 45, parameters threshold 8,
  maxContracts 5, minConfidence 0.3 and fair value 60, the value strategy generates a YES
  signal, which the risk filter then rejects. On the code the strategy generates no signal
  at all for this input.
\<close>

theorem value_scenario_no_signal:
  "valueSignals marketT1 defaultValueParams 60 = []"
  by (simp add: valueSignals_def marketT1_def defaultValueParams_def Let_def)

text \<open>
  C6 (amended): for a market with yesBid 40, yesAsk 50, mid 45, value parameters
  threshold 8, maxContracts 5, minConfidence 0.3 and a fair value of 60 (edge 10, which is
  at least the threshold, and confidence 0.10), the value strategy itself drops the YES
  signal because 0.10 is below minConfidence, and emits no signal; the risk filter
  therefore receives nothing from it and rejects nothing. With minConfidence lowered to
  0.10 the same input yields the YES signal at price 51, count 3, confidence 0.10, edge 10.
\<close>

theorem value_scenario_filtered_by_evaluator:
  "valueSignals (m\<lparr>yesBid := 40, yesAsk := 50, mid := 45\<rparr>)
      \<lparr>threshold = 8, maxContracts = 5, minConfidence = 3 / 10\<rparr> 60 = []
   \<and> evaluateValueStrategy (m\<lparr>yesBid := 40, yesAsk := 50, mid := 45\<rparr>)
      \<lparr>threshold = 8, maxContracts = 5, minConfidence = 3 / 10\<rparr> (3 / 2) = []
   \<and> checkedSignals strategy \<lparr>threshold = 8, maxContracts = 5, minConfidence = 3 / 10\<rparr> rp p
        (valueSignals (m\<lparr>yesBid := 40, yesAsk := 50, mid := 45\<rparr>)
           \<lparr>threshold = 8, maxContracts = 5, minConfidence = 3 / 10\<rparr> 60) = []
   \<and> valueSignals (m\<lparr>yesBid := 40, yesAsk := 50, mid := 45\<rparr>)
      \<lparr>threshold = 8, maxContracts = 5, minConfidence = 1 / 10\<rparr> 60
       = [\<lparr>s_ticker = ticker m, s_title = title m, side = YES, action = ''BUY'',
           price = 51, count = 3, confidence = 1 / 10, edge = 10\<rparr>]"
  by (simp add: valueSignals_def evaluateValueStrategy_def checkedSignals_def Let_def)

section \<open>Risk filter\<close>

text \<open>
  C5: the risk filter evaluates its four checks in the order exposure, low confidence,
  position limit, daily loss, and the first failing check decides: the reject reason is that
  of the first failing check in this order, and the signal is approved exactly when none
  fails. In particular a signal whose cost exceeds maxExposure and whose confidence is
  below minConfidence is REJECTED with "Exposure limit".
\<close>

theorem risk_checks_in_order:
  "rejectReason (checkSignal strategy vp rp p sig)
     = firstFailure (specRiskChecks strategy vp rp p sig)
   \<and> status (checkSignal strategy vp rp p sig)
       = (if firstFailure (specRiskChecks strategy vp rp p sig) = None then APPROVED
          else REJECTED)
   \<and> (price sig * count sig > maxExposure rp \<and> confidence sig < minConfidence vp
        \<longrightarrow> status (checkSignal strategy vp rp p sig) = REJECTED
          \<and> rejectReason (checkSignal strategy vp rp p sig) = Some ''Exposure limit'')"
  by (auto simp add: checkSignal_def specRiskChecks_def firstFailure_def Let_def dailyLoss_def
        split: option.splits)

theorem risk_checks_in_order_witness:
  "price riskySignal * count riskySignal > maxExposure defaultRiskParams
   \<and> confidence riskySignal < minConfidence defaultValueParams
   \<and> status (checkSignal ''value'' defaultValueParams defaultRiskParams initialPortfolio
               riskySignal) = REJECTED
   \<and> rejectReason (checkSignal ''value'' defaultValueParams defaultRiskParams initialPortfolio
                     riskySignal) = Some ''Exposure limit''"
proof -
  have over: "price riskySignal * count riskySignal > maxExposure defaultRiskParams"
    by (simp add: riskySignal_def defaultRiskParams_def)
  have low: "confidence riskySignal < minConfidence defaultValueParams"
    by (simp add: riskySignal_def defaultValueParams_def)
  from risk_checks_in_order
         [of "''value''" defaultValueParams defaultRiskParams initialPortfolio riskySignal]
       over low
  show ?thesis by blast
qed

text \<open>
  C9 (as stated): with totalPnl = -1000 and maxDailyLoss = 1000 every signal is rejected
  with "Daily loss limit". On the code a signal whose cost exceeds maxExposure is, in that
  state too, rejected with "Exposure limit".
\<close>

theorem daily_loss_state_other_reason:
  "rejectReason (checkSignal ''mm'' defaultValueParams tightRiskParams lossPortfolio wideBid)
     = Some ''Exposure limit''"
  by (simp add: checkSignal_def tightRiskParams_def lossPortfolio_def wideBid_def Let_def)

text \<open>
  C9 (amended): the daily loss is max(0, -totalPnl) of the portfolio the filter pass starts
  from. A signal is rejected with "Daily loss limit" exactly when it passes the exposure,
  low-confidence and position-limit checks and max(0, -totalPnl) is at least maxDailyLoss.
  Whenever max(0, -totalPnl) is at least maxDailyLoss, in particular in the state
  totalPnl = -1000 with maxDailyLoss = 1000, every signal is rejected, with the reason of
  the first failing check.
\<close>

theorem daily_loss_check:
  "dailyLoss p = max 0 (- totalPnl p)
   \<and> (rejectReason (checkSignal strategy vp rp p sig) = Some ''Daily loss limit''
        \<longleftrightarrow> \<not> price sig * count sig > maxExposure rp
          \<and> \<not> (confidence sig < minConfidence vp \<and> strategy \<noteq> ''mm'')
          \<and> (case map_of (positions p) (posKey (s_ticker sig) (side sig)) of
                None \<Rightarrow> True | Some pos \<Rightarrow> p_count pos < maxPositionPerMarket rp)
          \<and> max 0 (- totalPnl p) \<ge> maxDailyLoss rp)
   \<and> (max 0 (- totalPnl p) \<ge> maxDailyLoss rp
        \<longrightarrow> status (checkSignal strategy vp rp p sig) = REJECTED
          \<and> rejectReason (checkSignal strategy vp rp p sig)
              = firstFailure (specRiskChecks strategy vp rp p sig))
   \<and> (totalPnl p = - 1000 \<and> maxDailyLoss rp = 1000
        \<longrightarrow> status (checkSignal strategy vp rp p sig) = REJECTED)"
  by (auto simp add: checkSignal_def dailyLoss_def specRiskChecks_def firstFailure_def Let_def
        split: option.splits)

theorem daily_loss_check_witness:
  "totalPnl lossPortfolio = - 1000 \<and> maxDailyLoss defaultRiskParams = 1000
   \<and> max 0 (- totalPnl lossPortfolio) \<ge> maxDailyLoss defaultRiskParams
   \<and> \<not> price firstYes * count firstYes > maxExposure defaultRiskParams
   \<and> map_of (positions lossPortfolio) (posKey (s_ticker firstYes) (side firstYes)) = None
   \<and> dailyLoss lossPortfolio = 1000
   \<and> status (checkSignal ''mm'' defaultValueParams defaultRiskParams lossPortfolio firstYes)
       = REJECTED
   \<and> rejectReason (checkSignal ''mm'' defaultValueParams defaultRiskParams lossPortfolio firstYes)
       = Some ''Daily loss limit''"
proof -
  have st: "totalPnl lossPortfolio = - 1000" "maxDailyLoss defaultRiskParams = 1000"
    by (simp_all add: lossPortfolio_def defaultRiskParams_def)
  have ex: "\<not> price firstYes * count firstYes > maxExposure defaultRiskParams"
    by (simp add: firstYes_def defaultRiskParams_def)
  have po: "map_of (positions lossPortfolio) (posKey (s_ticker firstYes) (side firstYes)) = None"
    by (simp add: lossPortfolio_def initialPortfolio_def)
  from daily_loss_check [of lossPortfolio "''mm''" defaultValueParams defaultRiskParams firstYes]
       st ex po
  show ?thesis by simp
qed

text \<open>
  C10: every signal the value strategy emits has confidence at least minConfidence, so the
  risk filter, reading the same value parameters, never rejects a value-strategy signal
  with "Low confidence". A signal of a cycle that is rejected with "Low confidence" is a
  market-maker signal (confidence 0.5) of one of the snapshot's markets, and this happens
  only when the active strategy is "both" and minConfidence exceeds 0.5.
\<close>

theorem low_confidence_only_market_maker:
  "(\<forall>s \<in> set (evaluateValueStrategy m vp r). confidence s \<ge> minConfidence vp)
   \<and> (\<forall>s \<in> set (evaluateValueStrategy m vp r).
         rejectReason (checkSignal strategy vp rp p s) \<noteq> Some ''Low confidence'')
   \<and> (\<forall>c \<in> set (signals (cycle cfg draw currentMarkets st)).
         rejectReason c = Some ''Low confidence'' \<longrightarrow>
           activeStrategy cfg = ''both'' \<and> minConfidence (valueParams cfg) > 1 / 2
           \<and> confidence c = 1 / 2
           \<and> (\<exists>mk \<in> set currentMarkets.
                 signal.truncate c \<in> set (evaluateMMStrategy mk (mmParams cfg))))"
proof -
  have emitted: "\<forall>s \<in> set (evaluateValueStrategy m vp r). confidence s \<ge> minConfidence vp"
    by (simp add: evaluateValueStrategy_def value_conf)
  then have unreachable: "\<forall>s \<in> set (evaluateValueStrategy m vp r).
         rejectReason (checkSignal strategy vp rp p s) \<noteq> Some ''Low confidence''"
    by (auto simp add: checkSignal_def Let_def)
  have origin: "activeStrategy cfg = ''both'' \<and> minConfidence (valueParams cfg) > 1 / 2
           \<and> confidence c = 1 / 2
           \<and> (\<exists>mk \<in> set currentMarkets.
                 signal.truncate c \<in> set (evaluateMMStrategy mk (mmParams cfg)))"
    if c: "c \<in> set (signals (cycle cfg draw currentMarkets st))"
    and low: "rejectReason c = Some ''Low confidence''" for c
  proof -
    let ?a = "activeStrategy cfg" and ?vp = "valueParams cfg"
    from c obtain s where s: "s \<in> set (newSignals ?a ?vp (mmParams cfg) draw currentMarkets)"
      and cs: "c = checkSignal ?a ?vp (riskParams cfg) (e_portfolio st) s"
      by (auto simp add: cycle_def Let_def checkedSignals_def)
    from low cs have lc: "confidence s < minConfidence ?vp" and nmm: "?a \<noteq> ''mm''"
      by (auto simp add: checkSignal_def Let_def split: if_splits)
    from s obtain mk r where mk: "mk \<in> set currentMarkets"
      and sm: "s \<in> set (marketSignals ?a ?vp (mmParams cfg) r mk)"
      using in_newSignals by blast
    from sm lc have notv: "s \<notin> set (evaluateValueStrategy mk ?vp r)"
      using value_conf [of s mk ?vp] by (auto simp add: evaluateValueStrategy_def)
    with sm nmm have both: "?a = ''both''"
      and mm: "s \<in> set (evaluateMMStrategy mk (mmParams cfg))"
      by (auto simp add: marketSignals_def split: if_splits)
    from mm have half: "confidence s = 1 / 2"
      by (auto simp add: evaluateMMStrategy_def Let_def)
    have tr: "signal.truncate c = s" and cc: "confidence c = confidence s"
      using cs by (auto simp add: checkSignal_def Let_def)
    show ?thesis
      using both half lc cc tr mk mm by auto
  qed
  from emitted unreachable origin show ?thesis by blast
qed


text \<open>
  With the value sliders at their minima and the draw 0 (fair value 37.5) the value
  strategy emits a NO signal of confidence 0.025, which the filter does not reject for
  low confidence. In mode "both" with minConfidence 0.6, the market-maker YES bid on
  \<open>marketT1\<close> is rejected with "Low confidence".
\<close>

theorem low_confidence_only_market_maker_witness:
  "looseNo \<in> set (evaluateValueStrategy marketT1 looseValueParams 0)
   \<and> confidence looseNo \<ge> minConfidence looseValueParams
   \<and> rejectReason (checkSignal ''both'' looseValueParams defaultRiskParams initialPortfolio
                     looseNo) \<noteq> Some ''Low confidence''
   \<and> checkSignal ''both'' (valueParams strictBothConfig) defaultRiskParams initialPortfolio mmYesT1
       \<in> set (signals (cycle strictBothConfig halfDraw [marketT1] initialEngine))
   \<and> rejectReason (checkSignal ''both'' (valueParams strictBothConfig) defaultRiskParams
                     initialPortfolio mmYesT1) = Some ''Low confidence''
   \<and> activeStrategy strictBothConfig = ''both''
   \<and> minConfidence (valueParams strictBothConfig) > 1 / 2
   \<and> mmYesT1 \<in> set (evaluateMMStrategy marketT1 (mmParams strictBothConfig))"
proof -
  have v: "looseNo \<in> set (evaluateValueStrategy marketT1 looseValueParams 0)"
    by (simp add: evaluateValueStrategy_def valueSignals_def marketT1_def looseValueParams_def
          looseNo_def Let_def)
  have c: "checkSignal ''both'' (valueParams strictBothConfig) defaultRiskParams initialPortfolio
             mmYesT1
           \<in> set (signals (cycle strictBothConfig halfDraw [marketT1] initialEngine))"
    by (simp add: cycle_def checkedSignals_def newSignals_def marketSignals_def
          evaluateValueStrategy_def valueSignals_def evaluateMMStrategy_def strictBothConfig_def
          defaultMmParams_def marketT1_def halfDraw_def mmYesT1_def initialEngine_def Let_def)
  have l: "rejectReason (checkSignal ''both'' (valueParams strictBothConfig) defaultRiskParams
                     initialPortfolio mmYesT1) = Some ''Low confidence''"
    by (simp add: checkSignal_def strictBothConfig_def defaultRiskParams_def mmYesT1_def Let_def)
  have g: "mmYesT1 \<in> set (evaluateMMStrategy marketT1 (mmParams strictBothConfig))"
    by (simp add: evaluateMMStrategy_def strictBothConfig_def defaultMmParams_def marketT1_def
          mmYesT1_def Let_def)
  from low_confidence_only_market_maker
         [of marketT1 looseValueParams 0 "''both''" defaultRiskParams initialPortfolio
             strictBothConfig halfDraw "[marketT1]" initialEngine]
       v c l g
  show ?thesis by blast
qed


end
